theory Spec2Isabelle
  imports Main "HOL-Library.Sublist"
begin

section \<open>The flat ESLint configuration of the site\<close>

text \<open>
  The only logic-bearing file of the repository is \<^verbatim>\<open>eslint.config.js\<close>. Its default
  export is an array literal of configuration objects, one of whose entries is a spread
  (\<^verbatim>\<open>...astro.configs.recommended\<close>). The values it imports from its four packages are
  not part of the repository, so they are parameters of the model.
\<close>

subsection \<open>Configuration objects\<close>

text \<open>
  \<^verbatim>\<open>parserOptions: { ecmaVersion: 'latest', sourceType: 'module' }\<close>
\<close>

record parser_options =
  ecmaVersion :: string
  sourceType :: string

text \<open>
  \<^verbatim>\<open>languageOptions: { parser: ..., parserOptions: {...} }\<close>; the parser is an imported
  object, so its type is a parameter.
\<close>

record 'parser language_options =
  parser :: 'parser
  parserOptions :: parser_options

text \<open>
  A configuration object. Every key is optional in the source: an absent key is \<open>None\<close>.
  The \<^verbatim>\<open>plugins\<close> and \<^verbatim>\<open>rules\<close> objects are association lists in property order; as
  in an object, each key occurs once. Rule values are the severity strings of the source
  (\<^verbatim>\<open>'error'\<close>).
\<close>

record ('parser, 'plugin) fragment =
  files :: "string list option"
  ignores :: "string list option"
  languageOptions :: "'parser language_options option"
  plugins :: "(string \<times> 'plugin) list option"
  rules :: "(string \<times> string) list option"

text \<open>The configuration object with no key at all, \<^verbatim>\<open>{}\<close>.\<close>

definition no_keys :: "('parser, 'plugin) fragment" where
  "no_keys = \<lparr>files = None, ignores = None, languageOptions = None, plugins = None,
     rules = None\<rparr>"

subsection \<open>The array literal\<close>

text \<open>
  An element of an array literal is either an expression, whose value becomes one element,
  or a spread \<^verbatim>\<open>...e\<close>, whose elements are spliced in at that place.
\<close>

datatype 'a entry = Item 'a | Spread "'a list"

fun elements :: "'a entry \<Rightarrow> 'a list" where
  "elements (Item x) = [x]"
| "elements (Spread xs) = xs"

text \<open>
  The error named by the specification. The source has no \<^verbatim>\<open>throw\<close> and checks nothing,
  so no definition below produces it.
\<close>

datatype error = ConfigurationError

text \<open>
  The composer is the evaluation of the array literal: the entries are spliced from left
  to right into one array.
\<close>

definition compose :: "'a entry list \<Rightarrow> error + 'a list" where
  "compose es = Inr (concat (map elements es))"

subsection \<open>The imported values\<close>

text \<open>
  \<^verbatim>\<open>js.configs.recommended\<close>, \<^verbatim>\<open>typescript\<close> (the plugin object),
  \<^verbatim>\<open>typescript.configs.recommended.rules\<close>, \<^verbatim>\<open>typescriptParser\<close> and
  \<^verbatim>\<open>astro.configs.recommended\<close> (an array of configuration objects).
\<close>

record ('parser, 'plugin) imported =
  js_recommended :: "('parser, 'plugin) fragment"
  typescript :: 'plugin
  typescript_recommended_rules :: "(string \<times> string) list"
  typescriptParser :: 'parser
  astro_recommended :: "('parser, 'plugin) fragment list"

subsection \<open>The exported configuration\<close>

text \<open>Lines 8 to 23: the object that binds the TypeScript parser.\<close>

definition typescript_fragment ::
  "('parser, 'plugin) imported \<Rightarrow> ('parser, 'plugin) fragment" where
  "typescript_fragment imp =
     \<lparr>files = Some [''**/*.{js,mjs,cjs,ts,jsx,tsx}''],
      ignores = None,
      languageOptions = Some \<lparr>parser = typescriptParser imp,
        parserOptions = \<lparr>ecmaVersion = ''latest'', sourceType = ''module''\<rparr>\<rparr>,
      plugins = Some [(''@typescript-eslint'', typescript imp)],
      rules = Some (typescript_recommended_rules imp)\<rparr>"

text \<open>Lines 25 to 31: the rules for Astro files.\<close>

definition astro_rules_fragment :: "('parser, 'plugin) fragment" where
  "astro_rules_fragment =
     \<lparr>files = Some [''**/*.astro''],
      ignores = None,
      languageOptions = None,
      plugins = None,
      rules = Some [(''astro/no-conflict-set-directives'', ''error''),
                    (''astro/no-unused-define-vars-in-style'', ''error'')]\<rparr>"

text \<open>Lines 32 to 34: the object whose only key is \<^verbatim>\<open>ignores\<close>.\<close>

definition ignores_fragment :: "('parser, 'plugin) fragment" where
  "ignores_fragment =
     \<lparr>files = None,
      ignores = Some [''dist/'', ''node_modules/'', ''.astro/''],
      languageOptions = None,
      plugins = None,
      rules = None\<rparr>"

text \<open>Lines 6 to 35: the entries of the exported array literal, in source order.\<close>

definition config_entries ::
  "('parser, 'plugin) imported \<Rightarrow> ('parser, 'plugin) fragment entry list" where
  "config_entries imp =
     [Item (js_recommended imp),
      Item (typescript_fragment imp),
      Spread (astro_recommended imp),
      Item astro_rules_fragment,
      Item ignores_fragment]"

definition default_export ::
  "('parser, 'plugin) imported \<Rightarrow> error + ('parser, 'plugin) fragment list" where
  "default_export imp = compose (config_entries imp)"

subsection \<open>The specification's reading of the input\<close>

text \<open>
  The specification describes the input as a sequence of fragments and nested fragment
  arrays and the output as its left-to-right, depth-first flattening. This is that
  description, written independently of \<^const>\<open>compose\<close>.
\<close>

datatype 'a nested = Frag 'a | Arr "'a nested list"

fun spec_flatten :: "'a nested \<Rightarrow> 'a list" where
  "spec_flatten (Frag x) = [x]"
| "spec_flatten (Arr ns) = concat (map spec_flatten ns)"

text \<open>An entry of the literal seen as the specification sees it.\<close>

fun as_nested :: "'a entry \<Rightarrow> 'a nested" where
  "as_nested (Item x) = Frag x"
| "as_nested (Spread xs) = Arr (map Frag xs)"

text \<open>The number of fragments an entry contributes.\<close>

fun entry_size :: "'a entry \<Rightarrow> nat" where
  "entry_size (Item x) = 1"
| "entry_size (Spread xs) = length xs"

subsection \<open>Plugin declarations\<close>

text \<open>
  The specification's failure condition speaks of a plugin named by a rule and of the
  plugins maps earlier in, or at, the same fragment. A rule name carries its plugin as
  the part before its last slash (\<^verbatim>\<open>astro/no-conflict-set-directives\<close> names the plugin
  \<^verbatim>\<open>astro\<close>, \<^verbatim>\<open>@typescript-eslint/ban-ts-comment\<close> the plugin \<^verbatim>\<open>@typescript-eslint\<close>);
  a name without a slash is a rule of the engine itself and names no plugin.
\<close>

definition rule_plugin :: "string \<Rightarrow> string option" where
  "rule_plugin r =
     (if CHR ''/'' \<in> set r
      then Some (rev (tl (dropWhile (\<lambda>c. c \<noteq> CHR ''/'') (rev r))))
      else None)"

definition plugin_names :: "('parser, 'plugin) fragment \<Rightarrow> string list" where
  "plugin_names g = (case plugins g of None \<Rightarrow> [] | Some ps \<Rightarrow> map fst ps)"

definition rules_of :: "('parser, 'plugin) fragment \<Rightarrow> (string \<times> string) list" where
  "rules_of g = (case rules g of None \<Rightarrow> [] | Some rs \<Rightarrow> rs)"

text \<open>
  \<open>plugins_declared seen plan\<close>: walking the plan in order with the plugin names \<open>seen\<close>
  so far, every rule of every fragment that names a plugin names one declared by an
  earlier fragment or by the fragment itself.
\<close>

fun plugins_declared :: "string list \<Rightarrow> ('parser, 'plugin) fragment list \<Rightarrow> bool" where
  "plugins_declared seen [] = True"
| "plugins_declared seen (g # gs) =
     (list_all (\<lambda>r. case rule_plugin r of None \<Rightarrow> True
                    | Some p \<Rightarrow> p \<in> set (seen @ plugin_names g)) (map fst (rules_of g))
      \<and> plugins_declared (seen @ plugin_names g) gs)"

subsection \<open>Glob patterns\<close>

text \<open>
  The glob matcher belongs to the external linting engine and is absent from the
  repository. The specification calls \<^verbatim>\<open>files\<close> and \<^verbatim>\<open>ignores\<close> sets of glob patterns
  over file paths and gives no grammar, so the conventional reading of the three shapes
  the source writes is modelled: within one path segment \<^verbatim>\<open>*\<close> stands for any run of
  characters and \<^verbatim>\<open>?\<close> for one character; a segment \<^verbatim>\<open>**\<close> stands for any number of
  segments, none included; \<^verbatim>\<open>{a,b}\<close> stands for each of its alternatives (groups are not
  nested); a pattern ending in a slash names a directory and everything below it.
\<close>

text \<open>
  Modelled from the spec: the engine's matcher for one path segment, absent from the
  repository; \<^verbatim>\<open>*\<close> is any run of characters, \<^verbatim>\<open>?\<close> any one character.
\<close>

fun wild :: "string \<Rightarrow> string \<Rightarrow> bool" where
  "wild [] s = (s = [])"
| "wild (c # p) [] = (c = CHR ''*'' \<and> wild p [])"
| "wild (c # p) (d # s) =
     (if c = CHR ''*'' then wild p (d # s) \<or> wild (c # p) s
      else if c = CHR ''?'' then wild p s
      else c = d \<and> wild p s)"

text \<open>
  Modelled from the spec: the engine's splitting of a path (or pattern) into its segments
  at each slash, absent from the repository.
\<close>

fun split_path :: "string \<Rightarrow> string list" where
  "split_path [] = [[]]"
| "split_path (c # cs) =
     (if c = CHR ''/'' then [] # split_path cs
      else (case split_path cs of [] \<Rightarrow> [[c]] | w # ws \<Rightarrow> (c # w) # ws))"

text \<open>
  Modelled from the spec: the engine's matching of pattern segments against path
  segments, absent from the repository; the segment \<^verbatim>\<open>**\<close> takes any number of path
  segments.
\<close>

fun segs_match :: "string list \<Rightarrow> string list \<Rightarrow> bool" where
  "segs_match [] ss = (ss = [])"
| "segs_match (p # ps) [] = (p = ''**'' \<and> segs_match ps [])"
| "segs_match (p # ps) (s # ss) =
     (if p = ''**'' then segs_match ps (s # ss) \<or> segs_match (p # ps) ss
      else wild p s \<and> segs_match ps ss)"

text \<open>
  Modelled from the spec: the engine's brace expansion, absent from the repository. The
  pattern is scanned once: \<open>acc\<close> holds the expansions of the text read so far, and
  inside a group the state holds the finished alternatives and the one being read. A
  group that is never closed is kept as the text it is.
\<close>

fun brace_scan :: "string list \<Rightarrow> (string list \<times> string) option \<Rightarrow> string \<Rightarrow> string list" where
  "brace_scan acc None [] = acc"
| "brace_scan acc (Some (alts, cur)) [] =
     map (\<lambda>a. a @ CHR ''{'' # concat (map (\<lambda>b. b @ '','') alts) @ cur) acc"
| "brace_scan acc None (c # cs) =
     (if c = CHR ''{'' then brace_scan acc (Some ([], [])) cs
      else brace_scan (map (\<lambda>a. a @ [c]) acc) None cs)"
| "brace_scan acc (Some (alts, cur)) (c # cs) =
     (if c = CHR '','' then brace_scan acc (Some (alts @ [cur], [])) cs
      else if c = CHR ''}''
        then brace_scan (concat (map (\<lambda>a. map (\<lambda>b. a @ b) (alts @ [cur])) acc)) None cs
      else brace_scan acc (Some (alts, cur @ [c])) cs)"

text \<open>
  Modelled from the spec: the alternatives a pattern with brace groups stands for, part
  of the engine's matcher, absent from the repository.
\<close>

definition brace_expand :: "string \<Rightarrow> string list" where
  "brace_expand p = brace_scan [[]] None p"

text \<open>
  Modelled from the spec: the segments of a pattern, part of the engine's matcher, absent
  from the repository; a trailing slash makes the pattern cover everything below the
  directory.
\<close>

definition pattern_segments :: "string \<Rightarrow> string list" where
  "pattern_segments p =
     (let segs = split_path p
      in if last segs = [] then butlast segs @ [''**''] else segs)"

text \<open>
  Modelled from the spec: the engine's glob matcher, absent from the repository:
  \<open>glob_match pattern path\<close>.
\<close>

definition glob_match :: "string \<Rightarrow> string \<Rightarrow> bool" where
  "glob_match p f =
     list_ex (\<lambda>q. segs_match (pattern_segments q) (split_path f)) (brace_expand p)"

subsection \<open>The linting engine\<close>

text \<open>
  The linting engine that consumes the exported plan is an external program and is
  absent from the repository. The specification says that ignores-only fragments apply
  globally regardless of position; that for each file the engine filters the plan to the
  fragments whose \<^verbatim>\<open>files\<close>/\<^verbatim>\<open>ignores\<close> scope includes the file, a fragment with neither
  applying to every file not otherwise excluded; and that it merges their \<^verbatim>\<open>rules\<close> maps
  in order, later entries overriding earlier entries keyed by rule name. The matcher
  \<open>m pattern path\<close> is a parameter of every definition.
\<close>

text \<open>
  Modelled from the spec: the engine's test for a fragment whose only key is
  \<^verbatim>\<open>ignores\<close>, absent from the repository.
\<close>

definition ignores_only :: "('parser, 'plugin) fragment \<Rightarrow> bool" where
  "ignores_only g \<longleftrightarrow>
     ignores g \<noteq> None \<and> files g = None \<and> languageOptions g = None
     \<and> plugins g = None \<and> rules g = None"

text \<open>
  Modelled from the spec: the patterns of the ignores-only fragments of a plan, which the
  engine applies globally; absent from the repository.
\<close>

definition global_ignores :: "('parser, 'plugin) fragment list \<Rightarrow> string list" where
  "global_ignores plan =
     concat (map (\<lambda>g. case ignores g of None \<Rightarrow> [] | Some qs \<Rightarrow> qs)
       (filter ignores_only plan))"

text \<open>
  Modelled from the spec: the engine's exclusion of a file from all evaluation, absent
  from the repository.
\<close>

definition excluded ::
  "(string \<Rightarrow> string \<Rightarrow> bool) \<Rightarrow> string \<Rightarrow> ('parser, 'plugin) fragment list \<Rightarrow> bool" where
  "excluded m f plan = list_ex (\<lambda>q. m q f) (global_ignores plan)"

text \<open>
  Modelled from the spec: the engine's test that the \<^verbatim>\<open>files\<close>/\<^verbatim>\<open>ignores\<close> scope of a
  fragment includes a file, absent from the repository. A fragment without \<^verbatim>\<open>files\<close>
  is not restricted to any path.
\<close>

definition in_scope ::
  "(string \<Rightarrow> string \<Rightarrow> bool) \<Rightarrow> string \<Rightarrow> ('parser, 'plugin) fragment \<Rightarrow> bool" where
  "in_scope m f g \<longleftrightarrow>
     (case files g of None \<Rightarrow> True | Some ps \<Rightarrow> list_ex (\<lambda>p. m p f) ps)
     \<and> (case ignores g of None \<Rightarrow> True | Some qs \<Rightarrow> \<not> list_ex (\<lambda>q. m q f) qs)"

text \<open>
  Modelled from the spec: the engine's filtering of the plan to the fragments that apply
  to a file, in plan order; absent from the repository.
\<close>

definition applicable ::
  "(string \<Rightarrow> string \<Rightarrow> bool) \<Rightarrow> string \<Rightarrow> ('parser, 'plugin) fragment list
     \<Rightarrow> ('parser, 'plugin) fragment list" where
  "applicable m f plan = (if excluded m f plan then [] else filter (in_scope m f) plan)"

text \<open>
  Modelled from the spec: one step of the engine's merge of \<^verbatim>\<open>rules\<close> maps, absent from
  the repository; the entries of the later fragment override those merged so far.
\<close>

definition merge_rules ::
  "(string \<rightharpoonup> string) \<Rightarrow> ('parser, 'plugin) fragment \<Rightarrow> (string \<rightharpoonup> string)" where
  "merge_rules acc g = acc ++ map_of (rules_of g)"

text \<open>
  Modelled from the spec: the engine's merged rule set for a file, absent from the
  repository.
\<close>

definition effective_rules ::
  "(string \<Rightarrow> string \<Rightarrow> bool) \<Rightarrow> string \<Rightarrow> ('parser, 'plugin) fragment list
     \<Rightarrow> (string \<rightharpoonup> string)" where
  "effective_rules m f plan = foldl merge_rules Map.empty (applicable m f plan)"

text \<open>
  Modelled from the spec: the engine's effective severity of a rule on a file, absent
  from the repository.
\<close>

definition effective_severity ::
  "(string \<Rightarrow> string \<Rightarrow> bool) \<Rightarrow> string \<Rightarrow> ('parser, 'plugin) fragment list
     \<Rightarrow> string \<Rightarrow> string option" where
  "effective_severity m f plan r = effective_rules m f plan r"

text \<open>
  Modelled from the spec: the language options that bear on a file in the engine, those
  of the fragments that apply to it, in plan order; absent from the repository. Whatever
  the engine makes of them, it makes it of this list.
\<close>

definition language_options_for ::
  "(string \<Rightarrow> string \<Rightarrow> bool) \<Rightarrow> string \<Rightarrow> ('parser, 'plugin) fragment list
     \<Rightarrow> 'parser language_options list" where
  "language_options_for m f plan =
     concat (map (\<lambda>g. case languageOptions g of None \<Rightarrow> [] | Some lo \<Rightarrow> [lo])
       (applicable m f plan))"

subsection \<open>Concrete fragments and imports\<close>

text \<open>A fragment with one rule and no scope, \<^verbatim>\<open>{rules: {r: v}}\<close>.\<close>

definition unscoped_rule :: "string \<Rightarrow> string \<Rightarrow> ('parser, 'plugin) fragment" where
  "unscoped_rule r v = no_keys\<lparr>rules := Some [(r, v)]\<rparr>"

text \<open>A fragment with one rule and one pattern, \<^verbatim>\<open>{files: [p], rules: {r: v}}\<close>.\<close>

definition scoped_rule :: "string \<Rightarrow> string \<Rightarrow> string \<Rightarrow> ('parser, 'plugin) fragment" where
  "scoped_rule p r v = no_keys\<lparr>files := Some [p], rules := Some [(r, v)]\<rparr>"

text \<open>
  Values for the imported objects, with plugins and parsers stood for by their names: a
  recommended JavaScript rule set, two TypeScript rules, and an Astro array of three
  fragments, the first declaring the plugin and the second binding a parser for Astro
  files.
\<close>

definition sample_imports :: "(string, string) imported" where
  "sample_imports =
     \<lparr>js_recommended = unscoped_rule ''no-unused-vars'' ''error'',
      typescript = ''typescript-eslint-plugin'',
      typescript_recommended_rules =
        [(''@typescript-eslint/no-explicit-any'', ''error''), (''no-array-constructor'', ''off'')],
      typescriptParser = ''typescript-eslint-parser'',
      astro_recommended =
        [no_keys\<lparr>plugins := Some [(''astro'', ''eslint-plugin-astro'')]\<rparr>,
         no_keys\<lparr>files := Some [''**/*.astro''],
           languageOptions := Some \<lparr>parser = ''astro-eslint-parser'',
             parserOptions = \<lparr>ecmaVersion = ''latest'', sourceType = ''module''\<rparr>\<rparr>\<rparr>,
         unscoped_rule ''astro/no-set-html-directive'' ''error'']\<rparr>"

text \<open>
  The same imports with one more fragment at the end of the Astro array, turning off a
  rule of the plugin \<^verbatim>\<open>prettier\<close> for scripts inside Astro files, while no fragment
  declares that plugin.
\<close>

definition prettier_imports :: "(string, string) imported" where
  "prettier_imports =
     sample_imports\<lparr>astro_recommended :=
       astro_recommended sample_imports
         @ [scoped_rule ''**/*.astro/*.js'' ''prettier/prettier'' ''off'']\<rparr>"

section \<open>Properties of the composer\<close>

lemma concat_map_Frag: "concat (map (spec_flatten \<circ> Frag) xs) = xs"
  by (induction xs) simp_all

lemma flatten_as_nested: "spec_flatten (as_nested e) = elements e"
  by (cases e) (simp_all add: concat_map_Frag)

lemma length_elements: "length (elements e) = entry_size e"
  by (cases e) simp_all

lemma concat_elements_Item: "concat (map (elements \<circ> Item) xs) = xs"
  by (induction xs) simp_all

lemma length_concat_elements:
  "length (concat (map elements es)) = sum_list (map entry_size es)"
  by (induction es) (simp_all add: length_elements)

lemma default_export_plan:
  "default_export imp
     = Inr (js_recommended imp # typescript_fragment imp
            # astro_recommended imp @ [astro_rules_fragment, ignores_fragment])"
  by (simp add: default_export_def config_entries_def compose_def)

text \<open>
  C1. For every sequence of entries, fragments and spread fragment arrays alike, the
  composer returns the left-to-right, depth-first flattening of the input: every fragment
  is kept, in the order met, with nothing merged, dropped or repeated, so the length of
  the result is the sum of what the entries contribute. For the exported literal this is
  the recommended JavaScript fragment, the TypeScript fragment, the fragments of the
  spread Astro array in their order, the Astro rules and the ignores.
\<close>

theorem compose_is_depth_first_flatten:
  "compose es = Inr (spec_flatten (Arr (map as_nested es)))
   \<and> (\<exists>plan. compose es = Inr plan \<and> length plan = sum_list (map entry_size es))
   \<and> default_export imp
       = Inr (js_recommended imp # typescript_fragment imp
              # astro_recommended imp @ [astro_rules_fragment, ignores_fragment])"
proof -
  have "spec_flatten (Arr (map as_nested es)) = concat (map elements es)"
    by (induction es) (simp_all add: flatten_as_nested)
  then show ?thesis
    by (simp add: compose_def length_concat_elements default_export_plan)
qed

text \<open>
  C5. Composing a sequence that is already flat, one whose entries are all plain
  fragments, returns that sequence unchanged.
\<close>

theorem compose_flat_identity: "compose (map Item plan) = Inr plan"
  by (simp add: compose_def concat_elements_Item)

text \<open>
  C8. A spread array of three fragments followed by the locally written fragment for
  Astro files composes to a plan of four fragments: the three of the array, in their
  order, then the local one.
\<close>

theorem compose_spread_three_then_one:
  "compose [Spread [a, b, c],
      Item (scoped_rule ''**/*.astro'' ''astro/no-conflict-set-directives'' ''error'')]
   = Inr [a, b, c, scoped_rule ''**/*.astro'' ''astro/no-conflict-set-directives'' ''error'']
   \<and> (\<exists>plan. compose [Spread [a, b, c], Item d] = Inr plan \<and> length plan = 4
        \<and> take 3 plan = [a, b, c] \<and> drop 3 plan = [d])"
  by (simp add: compose_def)

section \<open>Plugin declarations and the composer's failures\<close>

lemma rules_declared_iff:
  "list_all (\<lambda>r. case rule_plugin r of None \<Rightarrow> True | Some p \<Rightarrow> p \<in> set seen) rs
     \<longleftrightarrow> (\<forall>r \<in> set rs. \<forall>p. rule_plugin r = Some p \<longrightarrow> p \<in> set seen)"
  by (auto simp: list_all_iff split: option.splits)

lemma plugins_declared_append:
  "plugins_declared seen (gs @ hs) \<longleftrightarrow>
     plugins_declared seen gs \<and> plugins_declared (seen @ concat (map plugin_names gs)) hs"
  by (induction gs arbitrary: seen) auto

text \<open>
  C4, as amended. The composer never fails with a ConfigurationError: it checks no plugin
  name, parser or glob pattern and returns a plan for every input.
\<close>

theorem compose_never_fails:
  "compose es \<noteq> Inl ConfigurationError \<and> (\<exists>plan. compose es = Inr plan)"
  by (simp add: compose_def)

text \<open>
  C4 as stated fails: a single fragment whose rules name the plugin \<^verbatim>\<open>astro\<close>, declared
  nowhere, is composed into a plan and no error is raised.
\<close>

theorem compose_undeclared_plugin_counterexample:
  "\<not> plugins_declared []
       [unscoped_rule ''astro/no-conflict-set-directives'' ''error'' :: (unit, unit) fragment]
   \<and> compose [Item (unscoped_rule ''astro/no-conflict-set-directives'' ''error''
                  :: (unit, unit) fragment)]
       = Inr [unscoped_rule ''astro/no-conflict-set-directives'' ''error'']
   \<and> compose [Item (unscoped_rule ''astro/no-conflict-set-directives'' ''error''
                  :: (unit, unit) fragment)]
       \<noteq> Inl ConfigurationError"
  by (simp add: compose_def unscoped_rule_def no_keys_def rules_of_def plugin_names_def
      rule_plugin_def)

text \<open>
  C9, as amended. In the exported configuration every rule of a fragment written in the
  source that names a plugin names one declared by the same fragment or an earlier one:
  the spread TypeScript rules, rules of the engine or of \<^verbatim>\<open>@typescript-eslint\<close>, stand
  in the very fragment that declares that plugin, and the two \<^verbatim>\<open>astro\<close> rules stand after
  the spread Astro array, which supplies the plugin \<^verbatim>\<open>astro\<close>. The rules of the imported
  fragments are not constrained by the source: the whole plan has the property exactly
  when the recommended JavaScript fragment has it by itself and the Astro array has it
  given the plugins declared before it. Whatever the imports, the export is a plan and
  never a ConfigurationError.
\<close>

theorem local_fragments_plugins_declared:
  assumes ts: "list_all (\<lambda>r. rule_plugin r = None \<or> rule_plugin r = Some ''@typescript-eslint'')
               (map fst (typescript_recommended_rules imp))"
    and supplies: "''astro'' \<in> set (concat (map plugin_names (astro_recommended imp)))"
  shows "default_export imp
           = Inr (js_recommended imp # typescript_fragment imp
                  # astro_recommended imp @ [astro_rules_fragment, ignores_fragment])
         \<and> default_export imp \<noteq> Inl ConfigurationError
         \<and> plugins_declared [] [typescript_fragment imp]
         \<and> plugins_declared (concat (map plugin_names (astro_recommended imp)))
             [astro_rules_fragment, ignores_fragment]
         \<and> (plugins_declared []
               (js_recommended imp # typescript_fragment imp
                  # astro_recommended imp @ [astro_rules_fragment, ignores_fragment])
             \<longleftrightarrow> plugins_declared [] [js_recommended imp]
                 \<and> plugins_declared
                     (plugin_names (js_recommended imp) @ [''@typescript-eslint''])
                     (astro_recommended imp))"
proof -
  let ?js = "js_recommended imp"
  let ?astro = "astro_recommended imp"
  have ts_names: "plugin_names (typescript_fragment imp) = [''@typescript-eslint'']"
    by (simp add: plugin_names_def typescript_fragment_def)
  have ts_rules: "rules_of (typescript_fragment imp) = typescript_recommended_rules imp"
    by (simp add: rules_of_def typescript_fragment_def)
  have ts_ok: "\<forall>r \<in> set (typescript_recommended_rules imp).
                 \<forall>p. rule_plugin (fst r) = Some p \<longrightarrow> p = ''@typescript-eslint''"
    using ts by (auto simp: list_all_iff)
  have astro_names: "plugin_names astro_rules_fragment = []"
      "rules_of astro_rules_fragment
         = [(''astro/no-conflict-set-directives'', ''error''),
            (''astro/no-unused-define-vars-in-style'', ''error'')]"
      "rule_plugin ''astro/no-conflict-set-directives'' = Some ''astro''"
      "rule_plugin ''astro/no-unused-define-vars-in-style'' = Some ''astro''"
    by (simp_all add: plugin_names_def rules_of_def astro_rules_fragment_def rule_plugin_def)
  have ignores_names: "plugin_names ignores_fragment = []" "rules_of ignores_fragment = []"
    by (simp_all add: plugin_names_def rules_of_def ignores_fragment_def)
  have ts_self: "plugins_declared [] [typescript_fragment imp]"
    using ts_ok by (auto simp: rules_declared_iff ts_names ts_rules)
  have after_astro: "plugins_declared (concat (map plugin_names ?astro))
                    [astro_rules_fragment, ignores_fragment]"
    using supplies by (simp add: rules_declared_iff astro_names ignores_names)
  have "plugins_declared [] (?js # typescript_fragment imp
            # ?astro @ [astro_rules_fragment, ignores_fragment])
        \<longleftrightarrow> plugins_declared [] [?js]
            \<and> plugins_declared (plugin_names ?js @ [''@typescript-eslint'']) ?astro"
    using ts_ok supplies
    by (auto simp: plugins_declared_append rules_declared_iff ts_names ts_rules astro_names
        ignores_names)
  with default_export_plan [of imp] ts_self after_astro show ?thesis
    by simp
qed

text \<open>
  The hypotheses of C9 hold of the concrete imports, where the imported fragments are
  consistent too and so is the whole plan.
\<close>

theorem local_fragments_plugins_declared_witness:
  "list_all (\<lambda>r. rule_plugin r = None \<or> rule_plugin r = Some ''@typescript-eslint'')
        (map fst (typescript_recommended_rules sample_imports))
   \<and> ''astro'' \<in> set (concat (map plugin_names (astro_recommended sample_imports)))
   \<and> plugins_declared [] [typescript_fragment sample_imports]
   \<and> plugins_declared (concat (map plugin_names (astro_recommended sample_imports)))
        [astro_rules_fragment, ignores_fragment]
   \<and> plugins_declared []
        (js_recommended sample_imports # typescript_fragment sample_imports
           # astro_recommended sample_imports @ [astro_rules_fragment, ignores_fragment])
   \<and> default_export sample_imports \<noteq> Inl ConfigurationError"
proof -
  have ts: "list_all (\<lambda>r. rule_plugin r = None \<or> rule_plugin r = Some ''@typescript-eslint'')
        (map fst (typescript_recommended_rules sample_imports))"
    by (simp add: sample_imports_def rule_plugin_def)
  have supplies: "''astro'' \<in> set (concat (map plugin_names (astro_recommended sample_imports)))"
    by (simp add: sample_imports_def unscoped_rule_def no_keys_def plugin_names_def)
  have js: "plugins_declared [] [js_recommended sample_imports]"
    by (simp add: sample_imports_def unscoped_rule_def no_keys_def rules_of_def plugin_names_def
        rule_plugin_def)
  have astro: "plugins_declared
      (plugin_names (js_recommended sample_imports) @ [''@typescript-eslint''])
      (astro_recommended sample_imports)"
    by (simp add: sample_imports_def unscoped_rule_def no_keys_def rules_of_def plugin_names_def
        rule_plugin_def)
  from local_fragments_plugins_declared [OF ts supplies] ts supplies js astro
  show ?thesis by blast
qed

text \<open>
  C9 as stated fails: with an Astro array that supplies the plugin \<^verbatim>\<open>astro\<close> and whose
  last fragment sets \<^verbatim>\<open>prettier/prettier\<close> while nothing declares \<^verbatim>\<open>prettier\<close>, and with
  TypeScript rules of the engine and of \<^verbatim>\<open>@typescript-eslint\<close> only, the exported plan
  holds a rule whose plugin is declared neither by its fragment nor by an earlier one;
  the plan is exported all the same.
\<close>

theorem imported_rule_undeclared_plugin_counterexample:
  "map rule_plugin (map fst (typescript_recommended_rules prettier_imports))
     = [Some ''@typescript-eslint'', None]
   \<and> ''astro'' \<in> set (concat (map plugin_names (astro_recommended prettier_imports)))
   \<and> default_export prettier_imports
       = Inr (js_recommended prettier_imports # typescript_fragment prettier_imports
              # astro_recommended prettier_imports @ [astro_rules_fragment, ignores_fragment])
   \<and> rules (astro_recommended prettier_imports ! 3) = Some [(''prettier/prettier'', ''off'')]
   \<and> rule_plugin ''prettier/prettier'' = Some ''prettier''
   \<and> ''prettier'' \<notin> set (concat (map plugin_names
         (js_recommended prettier_imports # typescript_fragment prettier_imports
            # astro_recommended prettier_imports @ [astro_rules_fragment, ignores_fragment])))
   \<and> \<not> plugins_declared []
         (js_recommended prettier_imports # typescript_fragment prettier_imports
            # astro_recommended prettier_imports @ [astro_rules_fragment, ignores_fragment])"
  by (simp add: default_export_plan prettier_imports_def sample_imports_def unscoped_rule_def
      scoped_rule_def no_keys_def typescript_fragment_def astro_rules_fragment_def
      ignores_fragment_def rules_of_def plugin_names_def rule_plugin_def)

section \<open>Properties of the plan under the engine\<close>

subsection \<open>Merging rules\<close>

lemma foldl_merge_rules_undefined:
  "list_all (\<lambda>g. map_of (rules_of g) r = None) gs \<Longrightarrow> foldl merge_rules acc gs r = acc r"
  by (induction gs arbitrary: acc) (simp_all add: merge_rules_def map_add_def)

lemma applicable_member:
  "g \<in> set (applicable m f plan) \<longleftrightarrow> \<not> excluded m f plan \<and> g \<in> set plan \<and> in_scope m f g"
  by (simp add: applicable_def)

text \<open>
  C2, as amended. For every matcher, file \<open>f\<close> and rule \<open>r\<close>: when fragment \<open>A\<close> comes
  before fragment \<open>B\<close> in the plan, both apply to \<open>f\<close> and both define \<open>r\<close>, and no
  fragment after \<open>B\<close> that is in scope for \<open>f\<close> defines \<open>r\<close>, the effective severity of
  \<open>r\<close> on \<open>f\<close> is the value \<open>B\<close> gives, whatever \<open>A\<close> gives.
\<close>

theorem last_applicable_definition_wins:
  assumes A: "A \<in> set (applicable m f (pre @ A # mid @ B # post))"
    and B: "B \<in> set (applicable m f (pre @ A # mid @ B # post))"
    and defA: "map_of (rules_of A) r = Some a"
    and defB: "map_of (rules_of B) r = Some b"
    and last: "list_all (\<lambda>C. map_of (rules_of C) r = None)
                 (filter (in_scope m f) post)"
  shows "effective_severity m f (pre @ A # mid @ B # post) r = Some b"
proof -
  let ?plan = "pre @ A # mid @ B # post"
  from B have nex: "\<not> excluded m f ?plan" and inB: "in_scope m f B"
    by (simp_all add: applicable_member)
  have "applicable m f ?plan
      = filter (in_scope m f) (pre @ A # mid) @ B # filter (in_scope m f) post"
    using nex inB by (simp add: applicable_def)
  then have "effective_rules m f ?plan r
      = foldl merge_rules (merge_rules (foldl merge_rules Map.empty
          (filter (in_scope m f) (pre @ A # mid))) B) (filter (in_scope m f) post) r"
    by (simp add: effective_rules_def)
  also have "\<dots> = merge_rules (foldl merge_rules Map.empty
          (filter (in_scope m f) (pre @ A # mid))) B r"
    using last by (rule foldl_merge_rules_undefined)
  also have "\<dots> = Some b"
    using defB by (simp add: merge_rules_def map_add_def)
  finally show ?thesis
    by (simp add: effective_severity_def)
qed

text \<open>
  The hypotheses of C2 hold of an unscoped fragment setting \<^verbatim>\<open>no-unused-vars\<close> to
  \<^verbatim>\<open>warn\<close>, a later one setting it to \<^verbatim>\<open>error\<close> for TypeScript files, the ignores of the
  source after them, and the file \<^verbatim>\<open>a.ts\<close>.
\<close>

theorem last_applicable_definition_wins_witness:
  "unscoped_rule ''no-unused-vars'' ''warn'' \<in> set (applicable glob_match ''a.ts''
       ([] @ unscoped_rule ''no-unused-vars'' ''warn'' # []
          @ scoped_rule ''**/*.ts'' ''no-unused-vars'' ''error''
          # [ignores_fragment :: (unit, unit) fragment]))
   \<and> scoped_rule ''**/*.ts'' ''no-unused-vars'' ''error'' \<in> set (applicable glob_match ''a.ts''
       ([] @ unscoped_rule ''no-unused-vars'' ''warn'' # []
          @ scoped_rule ''**/*.ts'' ''no-unused-vars'' ''error''
          # [ignores_fragment :: (unit, unit) fragment]))
   \<and> map_of (rules_of (unscoped_rule ''no-unused-vars'' ''warn'' :: (unit, unit) fragment))
         ''no-unused-vars'' = Some ''warn''
   \<and> map_of (rules_of (scoped_rule ''**/*.ts'' ''no-unused-vars'' ''error''
         :: (unit, unit) fragment)) ''no-unused-vars'' = Some ''error''
   \<and> list_all (\<lambda>C. map_of (rules_of C) ''no-unused-vars'' = None)
         (filter (in_scope glob_match ''a.ts'') [ignores_fragment :: (unit, unit) fragment])
   \<and> effective_severity glob_match ''a.ts''
       ([] @ unscoped_rule ''no-unused-vars'' ''warn'' # []
          @ scoped_rule ''**/*.ts'' ''no-unused-vars'' ''error''
          # [ignores_fragment :: (unit, unit) fragment]) ''no-unused-vars'' = Some ''error''"
proof -
  let ?A = "unscoped_rule ''no-unused-vars'' ''warn'' :: (unit, unit) fragment"
  let ?B = "scoped_rule ''**/*.ts'' ''no-unused-vars'' ''error'' :: (unit, unit) fragment"
  let ?plan = "[] @ ?A # [] @ ?B # [ignores_fragment]"
  have A: "?A \<in> set (applicable glob_match ''a.ts'' ?plan)"
    by (simp add: applicable_def excluded_def global_ignores_def ignores_only_def in_scope_def
        unscoped_rule_def scoped_rule_def no_keys_def ignores_fragment_def
        glob_match_def brace_expand_def pattern_segments_def)
  have B: "?B \<in> set (applicable glob_match ''a.ts'' ?plan)"
    by (simp add: applicable_def excluded_def global_ignores_def ignores_only_def in_scope_def
        unscoped_rule_def scoped_rule_def no_keys_def ignores_fragment_def
        glob_match_def brace_expand_def pattern_segments_def)
  have defA: "map_of (rules_of ?A) ''no-unused-vars'' = Some ''warn''"
    by (simp add: rules_of_def unscoped_rule_def scoped_rule_def no_keys_def)
  have defB: "map_of (rules_of ?B) ''no-unused-vars'' = Some ''error''"
    by (simp add: rules_of_def unscoped_rule_def scoped_rule_def no_keys_def)
  have last: "list_all (\<lambda>C. map_of (rules_of C) ''no-unused-vars'' = None)
         (filter (in_scope glob_match ''a.ts'') [ignores_fragment :: (unit, unit) fragment])"
    by (simp add: rules_of_def ignores_fragment_def)
  from last_applicable_definition_wins [OF A B defA defB last] A B defA defB last
  show ?thesis by blast
qed

text \<open>
  C2 as stated fails when a third fragment follows: of three unscoped fragments setting
  \<^verbatim>\<open>no-unused-vars\<close> to \<^verbatim>\<open>warn\<close>, \<^verbatim>\<open>error\<close> and \<^verbatim>\<open>off\<close>, the first two both apply to
  \<^verbatim>\<open>a.js\<close> and both define the rule, the second being the later of the two, yet the
  effective severity is \<^verbatim>\<open>off\<close>, not the second's \<^verbatim>\<open>error\<close>.
\<close>

theorem override_third_fragment_counterexample:
  "unscoped_rule ''no-unused-vars'' ''warn'' \<in> set (applicable glob_match ''a.js''
       [unscoped_rule ''no-unused-vars'' ''warn'', unscoped_rule ''no-unused-vars'' ''error'',
        unscoped_rule ''no-unused-vars'' ''off'' :: (unit, unit) fragment])
   \<and> unscoped_rule ''no-unused-vars'' ''error'' \<in> set (applicable glob_match ''a.js''
       [unscoped_rule ''no-unused-vars'' ''warn'', unscoped_rule ''no-unused-vars'' ''error'',
        unscoped_rule ''no-unused-vars'' ''off'' :: (unit, unit) fragment])
   \<and> map_of (rules_of (unscoped_rule ''no-unused-vars'' ''warn'' :: (unit, unit) fragment))
         ''no-unused-vars'' = Some ''warn''
   \<and> map_of (rules_of (unscoped_rule ''no-unused-vars'' ''error'' :: (unit, unit) fragment))
         ''no-unused-vars'' = Some ''error''
   \<and> effective_severity glob_match ''a.js''
       [unscoped_rule ''no-unused-vars'' ''warn'', unscoped_rule ''no-unused-vars'' ''error'',
        unscoped_rule ''no-unused-vars'' ''off'' :: (unit, unit) fragment] ''no-unused-vars''
       = Some ''off''"
  by (simp add: effective_severity_def effective_rules_def merge_rules_def applicable_def
      excluded_def global_ignores_def ignores_only_def in_scope_def rules_of_def
      unscoped_rule_def no_keys_def)

text \<open>
  C7. The unscoped fragment setting \<^verbatim>\<open>no-unused-vars\<close> to \<^verbatim>\<open>warn\<close> followed by the
  fragment setting it to \<^verbatim>\<open>error\<close> for \<^verbatim>\<open>**/*.ts\<close> composes to the plan of the two; on
  \<^verbatim>\<open>a.ts\<close> the effective severity is \<^verbatim>\<open>error\<close>, on \<^verbatim>\<open>a.js\<close> it is \<^verbatim>\<open>warn\<close>.
\<close>

theorem scoped_override_example:
  "compose [Item (unscoped_rule ''no-unused-vars'' ''warn''),
            Item (scoped_rule ''**/*.ts'' ''no-unused-vars'' ''error'')]
     = Inr [unscoped_rule ''no-unused-vars'' ''warn'',
            scoped_rule ''**/*.ts'' ''no-unused-vars'' ''error'']
   \<and> effective_severity glob_match ''a.ts''
       [unscoped_rule ''no-unused-vars'' ''warn'',
        scoped_rule ''**/*.ts'' ''no-unused-vars'' ''error'']
       ''no-unused-vars'' = Some ''error''
   \<and> effective_severity glob_match ''a.js''
       [unscoped_rule ''no-unused-vars'' ''warn'',
        scoped_rule ''**/*.ts'' ''no-unused-vars'' ''error'']
       ''no-unused-vars'' = Some ''warn''"
  by (simp add: compose_def effective_severity_def effective_rules_def merge_rules_def applicable_def
      excluded_def global_ignores_def ignores_only_def in_scope_def rules_of_def
      unscoped_rule_def scoped_rule_def no_keys_def glob_match_def brace_expand_def pattern_segments_def)

subsection \<open>Paths and patterns\<close>

lemma segs_match_globstar: "segs_match [''**''] ss"
  by (induction ss) simp_all

lemma split_path_nonempty: "split_path f \<noteq> []"
  by (induction f) (simp_all split: list.splits)

lemma split_path_single: "split_path f = [w] \<Longrightarrow> w = f"
proof (induction f arbitrary: w)
  case Nil
  then show ?case by simp
next
  case (Cons c cs)
  show ?case
  proof (cases "c = CHR ''/''")
    case True
    with Cons.prems split_path_nonempty [of cs] show ?thesis by simp
  next
    case False
    with Cons.prems split_path_nonempty [of cs]
    obtain w' where "split_path cs = [w']" and "w = c # w'"
      by (auto split: list.splits)
    with Cons.IH show ?thesis by simp
  qed
qed

lemma split_path_last_suffix: "suffix (last (split_path f)) f"
proof (induction f)
  case Nil
  then show ?case by simp
next
  case (Cons c cs)
  show ?case
  proof (cases "c = CHR ''/''")
    case True
    with Cons split_path_nonempty [of cs] show ?thesis
      by (simp add: suffix_Cons)
  next
    case False
    show ?thesis
    proof (cases "split_path cs")
      case Nil
      with split_path_nonempty [of cs] show ?thesis by simp
    next
      case sp: (Cons w ws)
      show ?thesis
      proof (cases ws)
        case Nil
        with sp have "w = cs" by (simp add: split_path_single)
        with sp Nil False show ?thesis by simp
      next
        case (Cons v vs)
        with Cons.IH sp False show ?thesis
          by (simp add: suffix_Cons)
      qed
    qed
  qed
qed

lemma wild_literal:
  "CHR ''*'' \<notin> set lit \<Longrightarrow> CHR ''?'' \<notin> set lit \<Longrightarrow> wild lit s \<Longrightarrow> s = lit"
proof (induction lit arbitrary: s)
  case Nil
  then show ?case by simp
next
  case (Cons c lit)
  then show ?case by (cases s) auto
qed

lemma wild_star_suffix:
  "CHR ''*'' \<notin> set lit \<Longrightarrow> CHR ''?'' \<notin> set lit \<Longrightarrow> wild (CHR ''*'' # lit) s
     \<Longrightarrow> suffix lit s"
proof (induction s)
  case Nil
  then have "wild lit []" by simp
  with Nil.prems wild_literal [of lit "[]"] have "[] = lit" by simp
  then show ?case by simp
next
  case (Cons d s)
  from Cons.prems(3) have "wild lit (d # s) \<or> wild (CHR ''*'' # lit) s"
    by simp
  then show ?case
  proof
    assume "wild lit (d # s)"
    with Cons.prems wild_literal [of lit "d # s"] have "d # s = lit" by simp
    then show ?thesis by simp
  next
    assume "wild (CHR ''*'' # lit) s"
    with Cons have "suffix lit s" by simp
    then show ?thesis by (simp add: suffix_Cons)
  qed
qed

lemma segs_match_globstar_last:
  "q \<noteq> ''**'' \<Longrightarrow> segs_match [''**'', q] ss \<Longrightarrow> ss \<noteq> [] \<and> wild q (last ss)"
proof (induction ss)
  case Nil
  then show ?case by simp
next
  case (Cons s ss)
  from Cons.prems have "segs_match [q] (s # ss) \<or> segs_match [''**'', q] ss"
    by simp
  then show ?case
  proof
    assume "segs_match [q] (s # ss)"
    with Cons.prems(1) show ?thesis by simp
  next
    assume "segs_match [''**'', q] ss"
    with Cons show ?thesis by simp
  qed
qed

lemma any_depth_extension:
  assumes "CHR ''*'' \<notin> set ext" "CHR ''?'' \<notin> set ext"
    and "segs_match [''**'', CHR ''*'' # ext] (split_path f)"
  shows "suffix ext f"
proof -
  have "CHR ''*'' # ext \<noteq> ''**''" using assms(1) by auto
  from segs_match_globstar_last [OF this assms(3)]
  have "wild (CHR ''*'' # ext) (last (split_path f))" by simp
  with assms wild_star_suffix [of ext "last (split_path f)"]
  have "suffix ext (last (split_path f))" by simp
  with split_path_last_suffix [of f] show ?thesis
    by (auto simp: suffix_def)
qed

lemma typescript_glob_extensions:
  assumes "glob_match ''**/*.{js,mjs,cjs,ts,jsx,tsx}'' f"
  shows "suffix ''.js'' f \<or> suffix ''.mjs'' f \<or> suffix ''.cjs'' f \<or> suffix ''.ts'' f
         \<or> suffix ''.jsx'' f \<or> suffix ''.tsx'' f"
proof -
  have exp: "map pattern_segments (brace_expand ''**/*.{js,mjs,cjs,ts,jsx,tsx}'')
     = [[''**'', ''*.js''], [''**'', ''*.mjs''], [''**'', ''*.cjs''], [''**'', ''*.ts''],
        [''**'', ''*.jsx''], [''**'', ''*.tsx'']]"
    by (simp add: brace_expand_def pattern_segments_def)
  from assms have "list_ex (\<lambda>ps. segs_match ps (split_path f))
      (map pattern_segments (brace_expand ''**/*.{js,mjs,cjs,ts,jsx,tsx}''))"
    by (simp add: glob_match_def list_ex_iff)
  then have "segs_match [''**'', ''*.js''] (split_path f)
      \<or> segs_match [''**'', ''*.mjs''] (split_path f)
      \<or> segs_match [''**'', ''*.cjs''] (split_path f)
      \<or> segs_match [''**'', ''*.ts''] (split_path f)
      \<or> segs_match [''**'', ''*.jsx''] (split_path f)
      \<or> segs_match [''**'', ''*.tsx''] (split_path f)"
    unfolding exp by simp
  then show ?thesis
    using any_depth_extension [of "''.js''" f] any_depth_extension [of "''.mjs''" f]
      any_depth_extension [of "''.cjs''" f] any_depth_extension [of "''.ts''" f]
      any_depth_extension [of "''.jsx''" f] any_depth_extension [of "''.tsx''" f]
    by auto
qed

lemma suffix_last: "suffix (xs @ [x]) f \<Longrightarrow> last f = x"
  by (auto simp: suffix_def)

lemma astro_file_not_typescript_glob:
  assumes "suffix ''.astro'' f"
  shows "\<not> glob_match ''**/*.{js,mjs,cjs,ts,jsx,tsx}'' f"
proof
  assume "glob_match ''**/*.{js,mjs,cjs,ts,jsx,tsx}'' f"
  from typescript_glob_extensions [OF this]
  have "last f = CHR ''s'' \<or> last f = CHR ''x''"
    using suffix_last [of "''.j''" "CHR ''s''" f] suffix_last [of "''.mj''" "CHR ''s''" f]
      suffix_last [of "''.cj''" "CHR ''s''" f] suffix_last [of "''.t''" "CHR ''s''" f]
      suffix_last [of "''.js''" "CHR ''x''" f] suffix_last [of "''.ts''" "CHR ''x''" f]
    by auto
  moreover from assms have "last f = CHR ''o''"
    using suffix_last [of "''.astr''" "CHR ''o''" f] by simp
  ultimately show False by simp
qed

lemma brace_scan_plain:
  "CHR ''{'' \<notin> set p \<Longrightarrow> brace_scan acc None p = map (\<lambda>a. a @ p) acc"
  by (induction p arbitrary: acc) (auto simp: comp_def)

lemma brace_expand_plain: "CHR ''{'' \<notin> set p \<Longrightarrow> brace_expand p = [p]"
  by (simp add: brace_expand_def brace_scan_plain)

lemma split_path_directory:
  "CHR ''/'' \<notin> set name \<Longrightarrow> split_path (name @ CHR ''/'' # rest) = name # split_path rest"
  by (induction name) auto

lemma pattern_segments_directory:
  "CHR ''/'' \<notin> set name \<Longrightarrow> pattern_segments (name @ ''/'') = [name, ''**'']"
  by (simp add: pattern_segments_def split_path_directory)

lemma wild_self: "CHR ''*'' \<notin> set name \<Longrightarrow> CHR ''?'' \<notin> set name \<Longrightarrow> wild name name"
  by (induction name) auto

lemma under_directory:
  assumes plain: "CHR ''/'' \<notin> set name" "CHR ''*'' \<notin> set name" "CHR ''?'' \<notin> set name"
      "CHR ''{'' \<notin> set name"
    and under: "prefix (name @ ''/'') f"
  shows "glob_match (name @ ''/'') f"
proof -
  from under obtain rest where f: "f = name @ CHR ''/'' # rest"
    by (auto simp: prefix_def)
  have "name \<noteq> ''**''" using plain(2) by auto
  then have "segs_match [name, ''**''] (name # split_path rest)"
    using plain by (simp add: wild_self segs_match_globstar)
  moreover have "brace_expand (name @ ''/'') = [name @ ''/'']"
    using plain(4) by (simp add: brace_expand_plain)
  ultimately show ?thesis
    using plain(1) by (simp add: glob_match_def pattern_segments_directory f split_path_directory)
qed

subsection \<open>Global ignores\<close>

lemma global_ignore_any_position:
  assumes "ignores_only g" "ignores g = Some qs" "q \<in> set qs" "m q f"
  shows "excluded m f (pre @ g # post)"
  using assms by (auto simp: excluded_def global_ignores_def list_ex_iff)

text \<open>
  C3. A fragment whose only key is \<^verbatim>\<open>ignores\<close> and that lists a directory, a plain
  name followed by a slash as \<^verbatim>\<open>dist/\<close>, \<^verbatim>\<open>node_modules/\<close> and \<^verbatim>\<open>.astro/\<close> are,
  excludes every file under that directory from all evaluation, wherever in the plan it
  stands: whatever fragments come before and after it, no fragment applies to such a file
  and no rule has a severity on it.
\<close>

theorem ignores_only_fragment_excludes_everywhere:
  assumes only: "ignores_only g"
    and pats: "ignores g = Some qs"
    and dir: "name @ ''/'' \<in> set qs"
    and plain: "CHR ''/'' \<notin> set name" "CHR ''*'' \<notin> set name" "CHR ''?'' \<notin> set name"
      "CHR ''{'' \<notin> set name"
    and under: "prefix (name @ ''/'') f"
  shows "excluded glob_match f (pre @ g # post)
         \<and> applicable glob_match f (pre @ g # post) = []
         \<and> effective_severity glob_match f (pre @ g # post) r = None"
proof -
  from plain under have "glob_match (name @ ''/'') f"
    by (rule under_directory)
  with only pats dir have "excluded glob_match f (pre @ g # post)"
    by (rule global_ignore_any_position)
  then show ?thesis
    by (simp add: applicable_def effective_severity_def effective_rules_def)
qed

text \<open>
  The hypotheses of C3 hold of the last fragment of the source, placed between two other
  fragments, its directory \<^verbatim>\<open>dist/\<close> and the file \<^verbatim>\<open>dist/index.html\<close>.
\<close>

theorem ignores_only_fragment_excludes_everywhere_witness:
  "ignores_only (ignores_fragment :: (string, string) fragment)
   \<and> ignores (ignores_fragment :: (string, string) fragment)
       = Some [''dist/'', ''node_modules/'', ''.astro/'']
   \<and> ''dist'' @ ''/'' \<in> set [''dist/'', ''node_modules/'', ''.astro/'']
   \<and> CHR ''/'' \<notin> set ''dist'' \<and> CHR ''*'' \<notin> set ''dist'' \<and> CHR ''?'' \<notin> set ''dist''
   \<and> CHR ''{'' \<notin> set ''dist''
   \<and> prefix (''dist'' @ ''/'') ''dist/index.html''
   \<and> excluded glob_match ''dist/index.html''
        ([astro_rules_fragment] @ ignores_fragment # [js_recommended sample_imports])
   \<and> applicable glob_match ''dist/index.html''
        ([astro_rules_fragment] @ ignores_fragment # [js_recommended sample_imports]) = []
   \<and> effective_severity glob_match ''dist/index.html''
        ([astro_rules_fragment] @ ignores_fragment # [js_recommended sample_imports])
        ''no-unused-vars'' = None"
proof -
  have only: "ignores_only (ignores_fragment :: (string, string) fragment)"
    by (simp add: ignores_only_def ignores_fragment_def)
  have pats: "ignores (ignores_fragment :: (string, string) fragment)
       = Some [''dist/'', ''node_modules/'', ''.astro/'']"
    by (simp add: ignores_fragment_def)
  have dir: "''dist'' @ ''/'' \<in> set [''dist/'', ''node_modules/'', ''.astro/'']"
    by simp
  have plain: "CHR ''/'' \<notin> set ''dist''" "CHR ''*'' \<notin> set ''dist''"
      "CHR ''?'' \<notin> set ''dist''" "CHR ''{'' \<notin> set ''dist''"
    by simp_all
  have under: "prefix (''dist'' @ ''/'') ''dist/index.html''"
    by simp
  from ignores_only_fragment_excludes_everywhere [OF only pats dir plain under,
      of "[astro_rules_fragment]" "[js_recommended sample_imports]" "''no-unused-vars''"]
    only pats dir plain under
  show ?thesis by simp
qed

subsection \<open>The TypeScript fragment and Astro files\<close>

lemma typescript_fragment_out_of_scope:
  "suffix ''.astro'' f \<Longrightarrow> \<not> in_scope glob_match f (typescript_fragment imp)"
  by (simp add: in_scope_def typescript_fragment_def astro_file_not_typescript_glob)

lemma typescript_fragment_not_ignores_only: "\<not> ignores_only (typescript_fragment imp)"
  by (simp add: ignores_only_def typescript_fragment_def)

lemma applicable_without_fragment:
  assumes "\<not> in_scope m f g" "\<not> ignores_only g"
  shows "applicable m f (pre @ g # post) = applicable m f (pre @ post)"
  using assms by (simp add: applicable_def excluded_def global_ignores_def)

text \<open>
  C10, as amended. The fragment that binds the TypeScript parser has the single pattern
  \<^verbatim>\<open>**/*.{js,mjs,cjs,ts,jsx,tsx}\<close>, which matches no path ending in \<^verbatim>\<open>.astro\<close>; so for
  every such file the fragment is out of scope, and the language options that bear on the
  file are those of the exported plan with that fragment left out. Of the other fragments,
  the two written in the source set no language options; the imported ones may.
\<close>

theorem typescript_fragment_inert_on_astro_files:
  assumes "suffix ''.astro'' f"
  shows "default_export (imp :: ('parser, 'plugin) imported)
           = Inr (js_recommended imp # typescript_fragment imp
                  # astro_recommended imp @ [astro_rules_fragment, ignores_fragment])
         \<and> files (typescript_fragment imp) = Some [''**/*.{js,mjs,cjs,ts,jsx,tsx}'']
         \<and> \<not> glob_match ''**/*.{js,mjs,cjs,ts,jsx,tsx}'' f
         \<and> \<not> in_scope glob_match f (typescript_fragment imp)
         \<and> language_options_for glob_match f
             (js_recommended imp # typescript_fragment imp
                # astro_recommended imp @ [astro_rules_fragment, ignores_fragment])
           = language_options_for glob_match f
               (js_recommended imp
                  # astro_recommended imp @ [astro_rules_fragment, ignores_fragment])
         \<and> languageOptions (astro_rules_fragment :: ('parser, 'plugin) fragment) = None
         \<and> languageOptions (ignores_fragment :: ('parser, 'plugin) fragment) = None"
proof -
  have out: "\<not> in_scope glob_match f (typescript_fragment imp)"
    using assms by (rule typescript_fragment_out_of_scope)
  have "applicable glob_match f ([js_recommended imp] @ typescript_fragment imp
            # (astro_recommended imp @ [astro_rules_fragment, ignores_fragment]))
        = applicable glob_match f ([js_recommended imp]
            @ (astro_recommended imp @ [astro_rules_fragment, ignores_fragment]))"
    using out typescript_fragment_not_ignores_only by (rule applicable_without_fragment)
  then have same: "language_options_for glob_match f
             (js_recommended imp # typescript_fragment imp
                # astro_recommended imp @ [astro_rules_fragment, ignores_fragment])
           = language_options_for glob_match f
               (js_recommended imp
                  # astro_recommended imp @ [astro_rules_fragment, ignores_fragment])"
    by (simp add: language_options_for_def)
  have pat: "files (typescript_fragment imp) = Some [''**/*.{js,mjs,cjs,ts,jsx,tsx}'']"
    by (simp add: typescript_fragment_def)
  show ?thesis
    using default_export_plan [of imp] out same pat astro_file_not_typescript_glob [OF assms]
    by (simp add: astro_rules_fragment_def ignores_fragment_def)
qed

text \<open>
  The hypothesis of C10 holds of the file \<^verbatim>\<open>src/pages/index.astro\<close>; with the concrete
  imports the TypeScript fragment is out of scope for it and changes nothing.
\<close>

theorem typescript_fragment_inert_on_astro_files_witness:
  "suffix ''.astro'' ''src/pages/index.astro''
   \<and> \<not> in_scope glob_match ''src/pages/index.astro'' (typescript_fragment sample_imports)
   \<and> language_options_for glob_match ''src/pages/index.astro''
       (js_recommended sample_imports # typescript_fragment sample_imports
          # astro_recommended sample_imports @ [astro_rules_fragment, ignores_fragment])
     = language_options_for glob_match ''src/pages/index.astro''
         (js_recommended sample_imports
            # astro_recommended sample_imports @ [astro_rules_fragment, ignores_fragment])"
proof -
  have astro: "suffix ''.astro'' ''src/pages/index.astro''"
    by (simp add: suffix_def)
  from typescript_fragment_inert_on_astro_files [OF astro, of sample_imports] astro
  show ?thesis by simp
qed

text \<open>
  C10 as stated fails in its last part: with an Astro array whose second fragment binds a
  parser for Astro files, the exported plan holds a fragment other than the TypeScript
  one that sets language options, and they bear on \<^verbatim>\<open>src/pages/index.astro\<close>.
\<close>

theorem other_fragment_sets_language_options_counterexample:
  "default_export sample_imports
     = Inr [js_recommended sample_imports, typescript_fragment sample_imports,
            astro_recommended sample_imports ! 0, astro_recommended sample_imports ! 1,
            astro_recommended sample_imports ! 2, astro_rules_fragment, ignores_fragment]
   \<and> astro_recommended sample_imports ! 1 \<noteq> typescript_fragment sample_imports
   \<and> languageOptions (astro_recommended sample_imports ! 1)
       = Some \<lparr>parser = ''astro-eslint-parser'',
           parserOptions = \<lparr>ecmaVersion = ''latest'', sourceType = ''module''\<rparr>\<rparr>
   \<and> in_scope glob_match ''src/pages/index.astro'' (astro_recommended sample_imports ! 1)
   \<and> language_options_for glob_match ''src/pages/index.astro''
       [js_recommended sample_imports, typescript_fragment sample_imports,
        astro_recommended sample_imports ! 0, astro_recommended sample_imports ! 1,
        astro_recommended sample_imports ! 2, astro_rules_fragment, ignores_fragment]
     = [\<lparr>parser = ''astro-eslint-parser'',
          parserOptions = \<lparr>ecmaVersion = ''latest'', sourceType = ''module''\<rparr>\<rparr>]"
  by (simp add: default_export_def config_entries_def compose_def sample_imports_def
      unscoped_rule_def no_keys_def
      typescript_fragment_def astro_rules_fragment_def ignores_fragment_def
      language_options_for_def applicable_def excluded_def global_ignores_def ignores_only_def
      in_scope_def glob_match_def brace_expand_def pattern_segments_def)

end
